theory Spec2Isabelle
  imports Complex_Main "HOL-Library.Log_Nat"
begin

section \<open>RangeSlider: the three-handle range selection control\<close>

text \<open>
  The widget keeps five integers (Python \<open>int\<close>, unbounded): the range \<open>_min\<close>,
  \<open>_max\<close>, the selection bounds \<open>_lower\<close>, \<open>_upper\<close> and the playhead
  \<open>_value\<close>. The leading underscore of the attribute names is written as the prefix
  \<open>f_\<close>. The geometry attributes \<open>_bar_h\<close>, \<open>_handle_r\<close> and the drag
  state \<open>_active\<close> are fields as well.
\<close>

datatype handle = Low | Mid | High

record range_slider =
  f_min :: int
  f_max :: int
  f_lower :: int
  f_upper :: int
  f_value :: int
  f_bar_h :: int
  f_handle_r :: int
  f_active :: "handle option"

text \<open>
  What a setter does besides changing the attributes: it emits Qt signals and asks for a
  repaint (\<open>self.update()\<close>). A setter returns the new state and the list of these
  effects, in program order.
\<close>

datatype signal = lowerValueChanged int | upperValueChanged int | valueChanged int

datatype effect = Emit signal | Update

text \<open>\<open>RangeSlider.__init__(minimum=0, maximum=99)\<close>\<close>

definition init :: "int \<Rightarrow> int \<Rightarrow> range_slider" where
  "init minimum maximum =
     \<lparr>f_min = minimum, f_max = maximum, f_lower = minimum, f_upper = maximum,
      f_value = minimum, f_bar_h = 6, f_handle_r = 8, f_active = None\<rparr>"

definition setRange :: "int \<Rightarrow> int \<Rightarrow> range_slider \<Rightarrow> range_slider \<times> effect list" where
  "setRange a b s =
     (s\<lparr>f_min := a, f_max := b, f_lower := a, f_upper := b,
        f_value := max a (min (f_value s) b)\<rparr>, [Update])"

definition setLowerValue :: "int \<Rightarrow> range_slider \<Rightarrow> range_slider \<times> effect list" where
  "setLowerValue v0 s =
     (let v = max (f_min s) (min v0 (f_upper s)) in
      if v \<noteq> f_lower s then
        (if f_value s < v
         then (s\<lparr>f_lower := v, f_value := v\<rparr>,
               [Emit (valueChanged v), Emit (lowerValueChanged v), Update])
         else (s\<lparr>f_lower := v\<rparr>, [Emit (lowerValueChanged v), Update]))
      else (s, []))"

definition setUpperValue :: "int \<Rightarrow> range_slider \<Rightarrow> range_slider \<times> effect list" where
  "setUpperValue v0 s =
     (let v = min (f_max s) (max v0 (f_lower s)) in
      if v \<noteq> f_upper s then
        (if f_value s > v
         then (s\<lparr>f_upper := v, f_value := v\<rparr>,
               [Emit (valueChanged v), Emit (upperValueChanged v), Update])
         else (s\<lparr>f_upper := v\<rparr>, [Emit (upperValueChanged v), Update]))
      else (s, []))"

definition setValue :: "int \<Rightarrow> range_slider \<Rightarrow> range_slider \<times> effect list" where
  "setValue v0 s =
     (let v = max (f_lower s) (min v0 (f_upper s)) in
      if v \<noteq> f_value s then (s\<lparr>f_value := v\<rparr>, [Emit (valueChanged v), Update])
      else (s, []))"

text \<open>
  The invariant of the selection interval as the specification words it:
  \<open>min \<le> lower \<le> upper \<le> max\<close> and \<open>lower \<le> value \<le> upper\<close>.
\<close>

definition slider_invariant :: "range_slider \<Rightarrow> bool" where
  "slider_invariant s \<longleftrightarrow>
     f_min s \<le> f_lower s \<and> f_lower s \<le> f_upper s \<and> f_upper s \<le> f_max s \<and>
     f_lower s \<le> f_value s \<and> f_value s \<le> f_upper s"

text \<open>
  Clamping as the specification words it: a value below the interval goes to its lower
  end, a value above it to its upper end, a value inside stays. The setters compute
  \<open>max lo (min v hi)\<close> (or \<open>min hi (max v lo)\<close>) instead; the theorems compare the
  two.
\<close>

definition clamp_into :: "int \<Rightarrow> int \<Rightarrow> int \<Rightarrow> int" where
  "clamp_into lo hi v = (if v < lo then lo else if hi < v then hi else v)"

text \<open>
  A state in which the playhead stands at 50 inside the full selection \<open>[0, 120]\<close>:
  \<open>setRange(0, 120); setValue(50)\<close> on a fresh widget.
\<close>

definition playing :: range_slider where
  "playing = fst (setValue 50 (fst (setRange 0 120 (init 0 99))))"

text \<open>
  A state of the control in which the selection has been narrowed to \<open>[0, 10]\<close> inside
  the range \<open>[0, 120]\<close>: \<open>setRange(0, 120); setUpperValue(10)\<close> on a fresh
  widget.
\<close>

definition narrowed :: range_slider where
  "narrowed = fst (setUpperValue 10 (fst (setRange 0 120 (init 0 99))))"

section \<open>Python numbers\<close>

text \<open>
  The exceptions of Python that the modelled functions can raise, and the sequencing of
  two computations that may raise.
\<close>

datatype py_error = OverflowError | ZeroDivisionError

definition and_then :: "py_error + 'a \<Rightarrow> ('a \<Rightarrow> py_error + 'b) \<Rightarrow> py_error + 'b" where
  "and_then m f = (case m of Inl e \<Rightarrow> Inl e | Inr v \<Rightarrow> f v)"

text \<open>
  A Python number is an \<open>int\<close> (unbounded) or a \<open>float\<close>: an IEEE 754 binary64
  value, here a finite one, given by the rational number it denotes.
\<close>

datatype num = PyInt int | PyFloat rat

fun val :: "num \<Rightarrow> rat" where
  "val (PyInt n) = of_int n"
| "val (PyFloat q) = q"

text \<open>
  Rounding a rational to binary64, to nearest with ties to even. \<open>rhe\<close> rounds to an
  integer that way. \<open>expo x\<close> is the exponent \<open>e\<close> of \<open>x \<noteq> 0\<close>, with
  \<open>2\<^sup>e \<le> \<bar>x\<bar> < 2\<^sup>e\<^sup>+\<^sup>1\<close>, found from the bit lengths of numerator and denominator.
  The unit in the last place of a number with 53 significant bits is \<open>2\<^sup>e\<^sup>-\<^sup>5\<^sup>2\<close>,
  and \<open>2\<^sup>-\<^sup>1\<^sup>0\<^sup>7\<^sup>4\<close> in the subnormal range. \<open>fl x\<close> is the nearest multiple of
  that unit: the binary64 value of \<open>x\<close> as long as it does not overflow.
\<close>

definition rhe :: "rat \<Rightarrow> int" where
  "rhe y = (let f = \<lfloor>y\<rfloor>; d = y - of_int f in
            if d < 1/2 then f else if 1/2 < d then f + 1 else if even f then f else f + 1)"

definition expo :: "rat \<Rightarrow> int" where
  "expo x = (let (p, q) = quotient_of \<bar>x\<bar>; k = bitlen p - bitlen q in
             if 2 powi k \<le> \<bar>x\<bar> then k else k - 1)"

definition ulp_exp :: "rat \<Rightarrow> int" where
  "ulp_exp x = max (expo x - 52) (- 1074)"

definition fl :: "rat \<Rightarrow> rat" where
  "fl x = (if x = 0 then 0 else of_int (rhe (x / 2 powi ulp_exp x)) * 2 powi ulp_exp x)"

text \<open>
  The result of a float operation whose exact value is \<open>x\<close>. When the rounded value
  reaches \<open>2\<^sup>1\<^sup>0\<^sup>2\<^sup>4\<close> in magnitude, the conversion of an \<open>int\<close> and the division of
  two \<open>int\<close>s raise \<open>OverflowError\<close>; the arithmetic of two floats gives an
  infinity instead, on which the \<open>int()\<close> or \<open>round()\<close> that ends each computation
  modelled here raises \<open>OverflowError\<close> in its turn. The model raises at once.
\<close>

definition double :: "rat \<Rightarrow> py_error + rat" where
  "double x = (if 2 ^ 1024 \<le> \<bar>fl x\<bar> then Inl OverflowError else Inr (fl x))"

definition py_float :: "num \<Rightarrow> py_error + rat" where
  "py_float a = (case a of PyInt n \<Rightarrow> double (of_int n) | PyFloat q \<Rightarrow> Inr q)"

text \<open>
  \<open>a - b\<close>, \<open>a + b\<close>, \<open>a * b\<close>: exact on two \<open>int\<close>s; otherwise both operands
  are converted to \<open>float\<close> and the result is rounded.
\<close>

definition float_op :: "(rat \<Rightarrow> rat \<Rightarrow> rat) \<Rightarrow> num \<Rightarrow> num \<Rightarrow> py_error + num" where
  "float_op f a b =
     and_then (py_float a) (\<lambda>x. and_then (py_float b) (\<lambda>y.
       map_sum id PyFloat (double (f x y))))"

definition py_sub :: "num \<Rightarrow> num \<Rightarrow> py_error + num" where
  "py_sub a b = (case (a, b) of (PyInt m, PyInt n) \<Rightarrow> Inr (PyInt (m - n))
                 | _ \<Rightarrow> float_op (\<lambda>x y. x - y) a b)"

definition py_add :: "num \<Rightarrow> num \<Rightarrow> py_error + num" where
  "py_add a b = (case (a, b) of (PyInt m, PyInt n) \<Rightarrow> Inr (PyInt (m + n))
                 | _ \<Rightarrow> float_op (\<lambda>x y. x + y) a b)"

definition py_mul :: "num \<Rightarrow> num \<Rightarrow> py_error + num" where
  "py_mul a b = (case (a, b) of (PyInt m, PyInt n) \<Rightarrow> Inr (PyInt (m * n))
                 | _ \<Rightarrow> float_op (\<lambda>x y. x * y) a b)"

text \<open>
  True division \<open>a / b\<close>. Of two \<open>int\<close>s it is the correctly rounded quotient, and a
  zero divisor is found first; otherwise the operands are converted first.
\<close>

definition py_truediv :: "num \<Rightarrow> num \<Rightarrow> py_error + num" where
  "py_truediv a b =
     (case (a, b) of
        (PyInt m, PyInt n) \<Rightarrow>
          if n = 0 then Inl ZeroDivisionError
          else map_sum id PyFloat (double (of_int m / of_int n))
      | _ \<Rightarrow>
          and_then (py_float a) (\<lambda>x. and_then (py_float b) (\<lambda>y.
            if y = 0 then Inl ZeroDivisionError
            else map_sum id PyFloat (double (x / y)))))"

text \<open>
  \<open>min(a, b)\<close> and \<open>max(a, b)\<close> return the first argument unless the second is
  strictly smaller (greater); the comparison of an \<open>int\<close> with a \<open>float\<close> is exact.
  \<open>int(a)\<close> truncates towards zero, \<open>round(a)\<close> rounds a float to the nearest
  integer, ties to even.
\<close>

definition py_min :: "num \<Rightarrow> num \<Rightarrow> num" where
  "py_min a b = (if val b < val a then b else a)"

definition py_max :: "num \<Rightarrow> num \<Rightarrow> num" where
  "py_max a b = (if val a < val b then b else a)"

definition py_int :: "num \<Rightarrow> int" where
  "py_int a = (case a of PyInt n \<Rightarrow> n
               | PyFloat q \<Rightarrow> if q < 0 then \<lceil>q\<rceil> else \<lfloor>q\<rfloor>)"

definition py_round :: "num \<Rightarrow> int" where
  "py_round a = (case a of PyInt n \<Rightarrow> n | PyFloat q \<Rightarrow> rhe q)"

section \<open>Strings and the utility functions\<close>

text \<open>
  A Python \<open>str\<close> is a sequence of Unicode code points. A \<^typ>\<open>char\<close> of HOL
  has only 256 values, so a character is modelled by its code point, a natural number,
  and a string by the list of them: \<open>length\<close> counts what Python's \<open>len\<close>
  counts. \<open>lit\<close> turns an ASCII literal into such a string.
\<close>

type_synonym str = "nat list"

definition lit :: "string \<Rightarrow> str" where
  "lit cs = map of_char cs"

text \<open>
  \<open>INVALID = r'<>:"/\\|?*'\<close>: a raw literal, so the two backslashes of the source
  are two characters of the string. In order: \<open><\<close>, \<open>>\<close>, \<open>:\<close>, the
  double quote, \<open>/\<close>, the backslash twice, \<open>|\<close>, \<open>?\<close>, \<open>*\<close>.
\<close>

definition INVALID :: str where
  "INVALID = [0x3C, 0x3E, 0x3A, 0x22, 0x2F, 0x5C, 0x5C, 0x7C, 0x3F, 0x2A]"

text \<open>
  \<open>sanitize(t, repl)\<close> joins, for each character \<open>c\<close> of \<open>t\<close>, either
  \<open>c\<close> itself or the whole replacement string \<open>repl\<close>. The default of
  \<open>repl\<close> is \<open>"-"\<close>, here \<open>dash\<close>.
\<close>

definition sanitize :: "str \<Rightarrow> str \<Rightarrow> str" where
  "sanitize t repl = concat (map (\<lambda>c. if c \<notin> set INVALID then [c] else repl) t)"

definition dash :: str where
  "dash = [0x2D]"

text \<open>
  The set of characters the claim about \<open>sanitize\<close> names:
  \<open>< > : " / \ | ? *\<close>, by code point.
\<close>

definition invalid_chars :: "nat set" where
  "invalid_chars = {0x3C, 0x3E, 0x3A, 0x22, 0x2F, 0x5C, 0x7C, 0x3F, 0x2A}"

text \<open>
  Decimal printing of an integer, as Python's \<open>str(n)\<close> and the format \<open>%d\<close> do
  it: the digits of the absolute value, most significant first, after a minus sign for
  a negative number. \<open>%02d\<close> pads the result with zeros on the left to two
  characters; a negative number has two characters already.
\<close>

fun dec :: "nat \<Rightarrow> str" where
  "dec n = (if n < 10 then [48 + n] else dec (n div 10) @ [48 + n mod 10])"

definition str_int :: "int \<Rightarrow> str" where
  "str_int n = (if n < 0 then 0x2D # dec (nat (- n)) else dec (nat n))"

definition fmt_02d :: "int \<Rightarrow> str" where
  "fmt_02d n = (let s = str_int n in replicate (2 - length s) 48 @ s)"

text \<open>
  \<open>hhmmss(sec)\<close> is \<open>str(timedelta(seconds=int(sec)))\<close>. The argument is an
  \<open>int\<close> or a \<open>float\<close>; \<open>int(sec)\<close> truncates towards zero.

  \<open>datetime.timedelta\<close> is Python's standard library. The constructor normalises
  the seconds into days and seconds of the day (\<open>divmod\<close> by 86400, rounding down) and
  raises \<open>OverflowError\<close> when the days exceed 999999999 in magnitude. Its
  \<open>__str__\<close> formats \<open>"%d:%02d:%02d" % (hh, mm, ss)\<close>, the hours without
  padding, after \<open>"%d day%s, "\<close> when the days are not zero, and appends the
  microseconds when there are any.
\<close>

record timedelta =
  td_days :: int
  td_seconds :: int
  td_microseconds :: int

definition timedelta_seconds :: "int \<Rightarrow> py_error + timedelta" where
  "timedelta_seconds n =
     (let d = n div 86400; s = n mod 86400 in
      if \<bar>d\<bar> > 999999999 then Inl OverflowError
      else Inr \<lparr>td_days = d, td_seconds = s, td_microseconds = 0\<rparr>)"

definition plural :: "int \<Rightarrow> str" where
  "plural n = (if \<bar>n\<bar> \<noteq> 1 then lit ''s'' else [])"

definition fmt_06d :: "int \<Rightarrow> str" where
  "fmt_06d n = (let s = str_int n in replicate (6 - length s) 48 @ s)"

definition timedelta_str :: "timedelta \<Rightarrow> str" where
  "timedelta_str td =
     (let mm0 = td_seconds td div 60; ss = td_seconds td mod 60;
          hh = mm0 div 60; mm = mm0 mod 60;
          s = str_int hh @ lit '':'' @ fmt_02d mm @ lit '':'' @ fmt_02d ss;
          s1 = (if td_days td \<noteq> 0
                then str_int (td_days td) @ lit '' day'' @ plural (td_days td) @ lit '', '' @ s
                else s)
      in if td_microseconds td \<noteq> 0 then s1 @ lit ''.'' @ fmt_06d (td_microseconds td)
         else s1)"

definition hhmmss :: "num \<Rightarrow> py_error + str" where
  "hhmmss sec = map_sum id timedelta_str (timedelta_seconds (py_int sec))"

text \<open>
  The form the specification gives for the result: two digits, a colon, two digits, a
  colon, two digits.
\<close>

definition is_digit :: "nat \<Rightarrow> bool" where
  "is_digit c \<longleftrightarrow> 48 \<le> c \<and> c \<le> 57"

fun hh_mm_ss_form :: "str \<Rightarrow> bool" where
  "hh_mm_ss_form [h1, h2, c1, m1, m2, c2, s1, s2] \<longleftrightarrow>
     is_digit h1 \<and> is_digit h2 \<and> c1 = 0x3A \<and> is_digit m1 \<and> is_digit m2 \<and>
     c2 = 0x3A \<and> is_digit s1 \<and> is_digit s2"
| "hh_mm_ss_form _ \<longleftrightarrow> False"

section \<open>MainUI: the trim action\<close>

text \<open>
  A \<open>pathlib.Path\<close> is modelled by its string. Of the attributes of \<open>MainUI\<close>
  the record keeps those \<open>trim_save\<close> reads or writes: the path of the video, the
  temporary directory, the slider, the trim button (enabled, text), the page of the
  stack and the value of the progress bar.
\<close>

type_synonym path = str

record main_ui =
  video_path :: "path option"
  tmp_dir :: "path option"
  slider :: range_slider
  trim_btn_enabled :: bool
  trim_btn_text :: str
  stack_index :: int
  bar_value :: int

text \<open>
  What the trim action does to the world outside the object, in program order: the
  message boxes, the file dialog (its caption, the video path from which the proposed
  name is derived, its filter), the start of the worker thread with its command line,
  the subprocess, and the removal of the temporary directory.
\<close>

datatype ui_action =
    MessageBox_warning str str
  | MessageBox_critical str str
  | MessageBox_information str str
  | GetSaveFileName str path str
  | ThreadStart "str list"
  | SubprocessRun "str list"
  | Rmtree path

text \<open>The command line \<open>ff\<close> of \<open>trim_save\<close>.\<close>

definition ff :: "int \<Rightarrow> int \<Rightarrow> path \<Rightarrow> str \<Rightarrow> str list" where
  "ff a b vp dst =
     [lit ''ffmpeg'', lit ''-hide_banner'', lit ''-loglevel'', lit ''error'',
      lit ''-ss'', str_int a, lit ''-to'', str_int b,
      lit ''-i'', vp, lit ''-c'', lit ''copy'', dst]"

text \<open>
  \<open>trim_save\<close>, up to the start of the thread. \<open>dst\<close> is what the file dialog
  answers if it is opened (the empty string when the user cancels). A \<open>Path\<close> is
  always true in a condition, so \<open>not self.video_path\<close> holds exactly for
  \<open>None\<close>.
\<close>

definition trim_save :: "str \<Rightarrow> main_ui \<Rightarrow> main_ui \<times> ui_action list" where
  "trim_save dst s =
     (case video_path s of
        None \<Rightarrow> (s, [])
      | Some vp \<Rightarrow>
          (let a = f_lower (slider s); b = f_upper (slider s) in
           if b \<le> a
           then (s, [MessageBox_warning (lit ''Bad range'') (lit ''End must be after Start.'')])
           else
             (let dialog = GetSaveFileName (lit ''Save clip'') vp (lit ''MP4 Video (*.mp4)'') in
              if dst = [] then (s, [dialog])
              else (s\<lparr>trim_btn_enabled := False, trim_btn_text := lit ''Trimming'' @ [0x2026]\<rparr>,
                    [dialog, ThreadStart (ff a b vp dst)]))))"

text \<open>
  The body \<open>work\<close> of the thread. How \<open>subprocess.run(ff, check=True)\<close> ends
  comes from outside: with exit status 0, with a \<open>CalledProcessError\<close> (and its
  text), or with another exception, which \<open>work\<close> does not catch. The
  \<open>finally\<close> block runs in each case.
\<close>

datatype run_outcome = Exit0 | CalledProcessError str | OtherException

definition work :: "run_outcome \<Rightarrow> str list \<Rightarrow> str \<Rightarrow> main_ui \<Rightarrow> main_ui \<times> ui_action list" where
  "work outcome cmd dst s =
     (s\<lparr>trim_btn_enabled := True, trim_btn_text := lit ''Trim & Save'',
        stack_index := 0, bar_value := 0\<rparr>,
      [SubprocessRun cmd] @
      (case outcome of
         Exit0 \<Rightarrow> [MessageBox_information (lit ''Saved'') (lit ''Clip saved to:'' @ [0x0A] @ dst)]
       | CalledProcessError msg \<Rightarrow> [MessageBox_critical (lit ''FFmpeg error'') msg]
       | OtherException \<Rightarrow> []) @
      (case tmp_dir s of None \<Rightarrow> [] | Some d \<Rightarrow> [Rmtree d]))"

text \<open>
  The trim action as a whole: \<open>trim_save\<close>, and then the body of each thread it
  started.
\<close>

fun run_threads :: "run_outcome \<Rightarrow> str \<Rightarrow> ui_action list \<Rightarrow> main_ui \<Rightarrow> main_ui \<times> ui_action list" where
  "run_threads outcome dst [] s = (s, [])"
| "run_threads outcome dst (ThreadStart cmd # as) s =
     (let (s1, ws) = work outcome cmd dst s; (s2, rest) = run_threads outcome dst as s1
      in (s2, ws @ rest))"
| "run_threads outcome dst (_ # as) s = run_threads outcome dst as s"

definition trim_action :: "str \<Rightarrow> run_outcome \<Rightarrow> main_ui \<Rightarrow> main_ui \<times> ui_action list" where
  "trim_action dst outcome s =
     (let (s1, acts) = trim_save dst s; (s2, ws) = run_threads outcome dst acts s1
      in (s2, acts @ ws))"

definition is_SubprocessRun :: "ui_action \<Rightarrow> bool" where
  "is_SubprocessRun x = (case x of SubprocessRun _ \<Rightarrow> True | _ \<Rightarrow> False)"

definition is_GetSaveFileName :: "ui_action \<Rightarrow> bool" where
  "is_GetSaveFileName x = (case x of GetSaveFileName _ _ _ \<Rightarrow> True | _ \<Rightarrow> False)"

text \<open>
  A state of the main window after a download (a video path, a temporary directory)
  whose slider has \<open>lower = 50\<close> and \<open>upper = 20\<close>.
\<close>

definition loaded_50_20 :: main_ui where
  "loaded_50_20 =
     \<lparr>video_path = Some (lit ''/tmp/lobster_x/clip.mp4''), tmp_dir = Some (lit ''/tmp/lobster_x''),
      slider = (init 0 99)\<lparr>f_lower := 50, f_upper := 20\<rparr>,
      trim_btn_enabled = True, trim_btn_text = lit ''Trim & Save'',
      stack_index = 1, bar_value = 0\<rparr>"

section \<open>RangeSlider: the coordinate mapping\<close>

text \<open>
  \<open>span = self._max - self._min or 1\<close>: the difference, and 1 when it is zero.
\<close>

definition span_of :: "range_slider \<Rightarrow> int" where
  "span_of s = (if f_max s - f_min s = 0 then 1 else f_max s - f_min s)"

text \<open>
  \<open>_val_to_pos(v)\<close> and \<open>_pos_to_val(x)\<close>. \<open>width\<close> is \<open>self.width()\<close>, the
  width of the widget in pixels, an \<open>int\<close> that Qt provides. \<open>v\<close> is an \<open>int\<close>;
  \<open>x\<close> is the horizontal coordinate of a mouse event, a \<open>float\<close>. The arithmetic
  is Python's: \<open>/\<close> is true division and gives a \<open>float\<close>.
\<close>

definition val_to_pos :: "int \<Rightarrow> range_slider \<Rightarrow> int \<Rightarrow> py_error + int" where
  "val_to_pos width s v =
     (let span = span_of s; w = width - 2 * f_handle_r s in
      and_then (py_truediv (PyInt (v - f_min s)) (PyInt span)) (\<lambda>q.
      and_then (py_mul q (PyInt w)) (\<lambda>p.
      Inr (py_int p + f_handle_r s))))"

definition pos_to_val :: "int \<Rightarrow> range_slider \<Rightarrow> num \<Rightarrow> py_error + int" where
  "pos_to_val width s x0 =
     (let span = span_of s; w = width - 2 * f_handle_r s in
      and_then (py_sub (py_max (PyInt (f_handle_r s))
                          (py_min x0 (PyInt (width - f_handle_r s))))
                  (PyInt (f_handle_r s))) (\<lambda>x.
      and_then (py_truediv x (PyInt w)) (\<lambda>q.
      and_then (py_mul q (PyInt span)) (\<lambda>p.
      and_then (py_add p (PyInt (f_min s))) (\<lambda>r.
      Inr (py_round r))))))"

text \<open>
  A widget 116 pixels wide (usable width 100) over the range \<open>[0, 250]\<close>.
\<close>

definition slider_250 :: range_slider where
  "slider_250 = fst (setRange 0 250 (init 0 99))"

section \<open>DownloadWorker\<close>

text \<open>
  The signals of the worker: \<open>finished(path, duration)\<close>, \<open>error(message)\<close> and
  \<open>progress(percent)\<close>.
\<close>

datatype worker_signal = Finished path int | Error str | Progress int

text \<open>
  The dictionary that the downloader passes to the progress hook: its \<open>status\<close> and
  the three byte counts, each of which may be missing or \<open>None\<close>. The byte counts
  are Python \<open>int\<close>s.
\<close>

record progress_info =
  status :: str
  total_bytes :: "int option"
  total_bytes_estimate :: "int option"
  downloaded_bytes :: "int option"

text \<open>
  \<open>a or b\<close> on two optional numbers: \<open>a\<close> when it is neither \<open>None\<close> nor
  zero, else \<open>b\<close>. \<open>if t:\<close> holds for a number that is neither.
\<close>

definition py_or :: "int option \<Rightarrow> int option \<Rightarrow> int option" where
  "py_or a b = (case a of None \<Rightarrow> b | Some n \<Rightarrow> if n \<noteq> 0 then Some n else b)"

definition truthy :: "int option \<Rightarrow> bool" where
  "truthy t = (case t of None \<Rightarrow> False | Some n \<Rightarrow> n \<noteq> 0)"

text \<open>
  The progress hook \<open>phook\<close> of \<open>DownloadWorker.run\<close>: what it emits, or the
  exception that the arithmetic raises.
\<close>

definition phook :: "progress_info \<Rightarrow> py_error + worker_signal list" where
  "phook d =
     (if status d = lit ''downloading'' then
        (let t = py_or (total_bytes d) (total_bytes_estimate d) in
         if truthy t then
           and_then (py_truediv
               (PyInt ((case downloaded_bytes d of None \<Rightarrow> 0 | Some n \<Rightarrow> n) * 100))
               (PyInt (the t)))
             (\<lambda>q. Inr [Progress (py_int q)])
         else Inr [])
      else Inr [])"

text \<open>
  The hook is called once for each dictionary, in order; an exception in it ends the
  download. The result is what was emitted and the exception, if any.
\<close>

fun run_hooks :: "progress_info list \<Rightarrow> worker_signal list \<times> py_error option" where
  "run_hooks [] = ([], None)"
| "run_hooks (d # ds) =
     (case phook d of
        Inl e \<Rightarrow> ([], Some e)
      | Inr sigs \<Rightarrow> (let (rest, err) = run_hooks ds in (sigs @ rest, err)))"

definition error_text :: "py_error \<Rightarrow> str" where
  "error_text e = (case e of
      OverflowError \<Rightarrow> lit ''integer division result too large for a float''
    | ZeroDivisionError \<Rightarrow> lit ''division by zero'')"

text \<open>
  What the extraction library and the file system answer during one run: the metadata
  (or the text of the exception of the query), with the duration and the title that
  \<open>info.get\<close> finds or not; the dictionaries the download passes to the hook and the
  text of the exception it ends with, if it does; which files exist; and what
  \<open>Path.resolve\<close> returns.
\<close>

record info =
  info_duration :: "int option"
  info_title :: "str option"

record dl_env =
  extract_info :: "str + info"
  hook_calls :: "progress_info list"
  download_raises :: "str option"
  file_exists :: "path \<Rightarrow> bool"
  resolve :: "path \<Rightarrow> path"

text \<open>
  \<open>DownloadWorker.run\<close>, with \<open>tmp\<close> the directory of the worker: the signals it
  emits, in order. \<open>info.get("duration") or 0\<close> is 0 for a missing duration,
  \<open>info.get("title") or "clip"\<close> is \<open>clip\<close> for a missing or empty title. The
  file is \<open>tmp / (safe + ".mp4")\<close>, joined with a slash.
\<close>

definition mp4_path :: "path \<Rightarrow> info \<Rightarrow> path" where
  "mp4_path tmp i =
     tmp @ lit ''/'' @
     sanitize (case info_title i of None \<Rightarrow> lit ''clip''
               | Some t \<Rightarrow> if t = [] then lit ''clip'' else t) dash @
     lit ''.mp4''"

definition run :: "dl_env \<Rightarrow> path \<Rightarrow> worker_signal list" where
  "run env tmp =
     (case extract_info env of
        Inl msg \<Rightarrow> [Error msg]
      | Inr i \<Rightarrow>
          (let dur = (case info_duration i of None \<Rightarrow> 0 | Some d \<Rightarrow> if d \<noteq> 0 then d else 0);
               (sigs, err) = run_hooks (hook_calls env)
           in case err of
                Some e \<Rightarrow> sigs @ [Error (error_text e)]
              | None \<Rightarrow>
                  (case download_raises env of
                     Some msg \<Rightarrow> sigs @ [Error msg]
                   | None \<Rightarrow>
                       (let mp4 = resolve env (mp4_path tmp i) in
                        if \<not> file_exists env mp4
                        then sigs @ [Error (lit ''Download finished but .mp4 not found.'')]
                        else sigs @ [Progress 100, Finished mp4 dur]))))"

definition is_Error :: "worker_signal \<Rightarrow> bool" where
  "is_Error x = (case x of Error _ \<Rightarrow> True | _ \<Rightarrow> False)"

definition is_Finished :: "worker_signal \<Rightarrow> bool" where
  "is_Finished x = (case x of Finished _ _ \<Rightarrow> True | _ \<Rightarrow> False)"

text \<open>
  A run in which the metadata has a title and no duration, the download goes through
  without a progress report, and the file is there.
\<close>

definition no_duration_env :: dl_env where
  "no_duration_env =
     \<lparr>extract_info = Inr \<lparr>info_duration = None, info_title = Some (lit ''a'')\<rparr>,
      hook_calls = [], download_raises = None,
      file_exists = (\<lambda>p. True), resolve = (\<lambda>p. p)\<rparr>"

section \<open>Theorems about the range selection control\<close>

lemma setRange_establishes:
  "a \<le> b \<Longrightarrow> slider_invariant (fst (setRange a b s))"
  by (simp add: setRange_def slider_invariant_def)

lemma setLowerValue_preserves:
  "slider_invariant s \<Longrightarrow> slider_invariant (fst (setLowerValue v s))"
  by (auto simp: setLowerValue_def slider_invariant_def Let_def)

lemma setUpperValue_preserves:
  "slider_invariant s \<Longrightarrow> slider_invariant (fst (setUpperValue v s))"
  by (auto simp: setUpperValue_def slider_invariant_def Let_def)

lemma setValue_preserves:
  "slider_invariant s \<Longrightarrow> slider_invariant (fst (setValue v s))"
  by (auto simp: setValue_def slider_invariant_def Let_def)

text \<open>
  C1 (as stated, refuted): \<open>setRange(5, 3)\<close> on a fresh widget leaves
  \<open>lower = 5 > upper = 3\<close>, so the invariant does not hold after every operation with
  arbitrary arguments.
\<close>

theorem C1_setRange_counterexample:
  "\<not> slider_invariant (fst (setRange 5 3 (init 0 99)))"
  by (simp add: setRange_def init_def slider_invariant_def)

text \<open>
  C1 (amended): \<open>setRange(a, b)\<close> with \<open>a \<le> b\<close> establishes the invariant from
  any state, and \<open>setLowerValue\<close>, \<open>setUpperValue\<close> and \<open>setValue\<close> with an
  arbitrary integer argument keep it when the state they start from satisfies it.
\<close>

theorem C1_invariant:
  "(a \<le> b \<longrightarrow> slider_invariant (fst (setRange a b s))) \<and>
   (slider_invariant s \<longrightarrow>
      slider_invariant (fst (setLowerValue v s)) \<and>
      slider_invariant (fst (setUpperValue v s)) \<and>
      slider_invariant (fst (setValue v s)))"
  using setRange_establishes setLowerValue_preserves setUpperValue_preserves
    setValue_preserves by blast

theorem C1_invariant_witness:
  "(0::int) \<le> 120 \<and> slider_invariant (init 0 99) \<and>
   slider_invariant (fst (setRange 0 120 (init 0 99))) \<and>
   slider_invariant (fst (setLowerValue 30 (init 0 99))) \<and>
   slider_invariant (fst (setUpperValue 30 (init 0 99))) \<and>
   slider_invariant (fst (setValue 30 (init 0 99)))"
proof -
  have inv0: "slider_invariant (init 0 99)"
    by (simp add: init_def slider_invariant_def)
  show ?thesis
    using C1_invariant [of 0 120 "init 0 99" 30] inv0 by simp
qed

text \<open>
  C2 (as stated, refuted): in the state with range \<open>[0, 120]\<close> and selection
  \<open>[0, 10]\<close>, \<open>setLowerValue(30); setUpperValue(90)\<close> has \<open>0 \<le> 30 \<le> 90 \<le> 120\<close>
  but leaves \<open>lower = 10\<close>: the new lower bound is clamped to the upper bound of the
  moment, before that one is raised.
\<close>

theorem C2_counterexample:
  "f_min narrowed \<le> 30 \<and> (30::int) \<le> 90 \<and> 90 \<le> f_max narrowed \<and>
   f_lower (fst (setUpperValue 90 (fst (setLowerValue 30 narrowed)))) = 10 \<and>
   f_lower (fst (setUpperValue 90 (fst (setLowerValue 30 narrowed)))) \<noteq> 30"
  by (simp add: narrowed_def setUpperValue_def setLowerValue_def setRange_def init_def)

text \<open>
  C2 (amended): for every \<open>a\<close> and \<open>b\<close> with \<open>min \<le> a \<le> b \<le> max\<close>, in any state
  whose current upper bound is at least \<open>a\<close>, \<open>setLowerValue(a)\<close> followed by
  \<open>setUpperValue(b)\<close> leaves \<open>lower = a\<close> and \<open>upper = b\<close>.
\<close>

theorem C2_lower_then_upper:
  assumes "f_min s \<le> a" and "a \<le> b" and "b \<le> f_max s" and "a \<le> f_upper s"
  shows "f_lower (fst (setUpperValue b (fst (setLowerValue a s)))) = a \<and>
         f_upper (fst (setUpperValue b (fst (setLowerValue a s)))) = b"
proof -
  let ?s1 = "fst (setLowerValue a s)"
  have clamp: "max (f_min s) (min a (f_upper s)) = a"
    using assms by simp
  have lo: "f_lower ?s1 = a"
    by (simp add: setLowerValue_def clamp)
  have up: "f_upper ?s1 = f_upper s" and mx: "f_max ?s1 = f_max s"
    by (simp_all add: setLowerValue_def clamp)
  have clamp2: "min (f_max ?s1) (max b (f_lower ?s1)) = b"
    using assms by (simp add: lo mx)
  have "f_upper (fst (setUpperValue b ?s1)) = b"
    unfolding setUpperValue_def Let_def clamp2 by simp
  moreover have "f_lower (fst (setUpperValue b ?s1)) = a"
    unfolding setUpperValue_def Let_def clamp2 by (simp add: lo)
  ultimately show ?thesis by simp
qed

theorem C2_lower_then_upper_witness:
  "f_min (init 0 99) \<le> 30 \<and> (30::int) \<le> 90 \<and> 90 \<le> f_max (init 0 99) \<and>
   30 \<le> f_upper (init 0 99) \<and>
   f_lower (fst (setUpperValue 90 (fst (setLowerValue 30 (init 0 99))))) = 30 \<and>
   f_upper (fst (setUpperValue 90 (fst (setLowerValue 30 (init 0 99))))) = 90"
proof -
  have h: "f_min (init 0 99) \<le> 30" "(30::int) \<le> 90" "90 \<le> f_max (init 0 99)"
    "30 \<le> f_upper (init 0 99)"
    by (simp_all add: init_def)
  from C2_lower_then_upper [OF h] h show ?thesis by simp
qed

text \<open>What each bound setter does, one lemma per setter.\<close>

lemma setLowerValue_effect:
  "(case setLowerValue v s of (s', es) \<Rightarrow>
      (Emit (lowerValueChanged (f_lower s')) \<in> set es \<longleftrightarrow> f_lower s' \<noteq> f_lower s) \<and>
      (\<forall>x. Emit (lowerValueChanged x) \<in> set es \<longrightarrow> x = f_lower s') \<and>
      (slider_invariant s \<longrightarrow>
         f_lower s' = clamp_into (f_min s) (f_upper s) v \<and>
         (f_value s < f_lower s' \<longrightarrow>
            f_value s' = f_lower s' \<and> Emit (valueChanged (f_lower s')) \<in> set es) \<and>
         (\<not> f_value s < f_lower s' \<longrightarrow>
            f_value s' = f_value s \<and> (\<forall>x. Emit (valueChanged x) \<notin> set es))))"
  by (auto simp: setLowerValue_def slider_invariant_def clamp_into_def Let_def)

lemma setUpperValue_effect:
  "(case setUpperValue v s of (s', es) \<Rightarrow>
      (Emit (upperValueChanged (f_upper s')) \<in> set es \<longleftrightarrow> f_upper s' \<noteq> f_upper s) \<and>
      (\<forall>x. Emit (upperValueChanged x) \<in> set es \<longrightarrow> x = f_upper s') \<and>
      (slider_invariant s \<longrightarrow>
         f_upper s' = clamp_into (f_lower s) (f_max s) v \<and>
         (f_upper s' < f_value s \<longrightarrow>
            f_value s' = f_upper s' \<and> Emit (valueChanged (f_upper s')) \<in> set es) \<and>
         (\<not> f_upper s' < f_value s \<longrightarrow>
            f_value s' = f_value s \<and> (\<forall>x. Emit (valueChanged x) \<notin> set es))))"
  by (auto simp: setUpperValue_def slider_invariant_def clamp_into_def Let_def)

text \<open>
  C3: \<open>setLowerValue(v)\<close> stores \<open>v\<close> clamped into \<open>[min, upper]\<close> and
  \<open>setUpperValue(w)\<close> stores \<open>w\<close> clamped into \<open>[lower, max]\<close>; when the new lower
  bound is above the position (the new upper bound below it), the position becomes that
  bound and \<open>valueChanged\<close> is emitted with it, and otherwise the position stays and no
  \<open>valueChanged\<close> is emitted; \<open>lowerValueChanged\<close> (\<open>upperValueChanged\<close>) is
  emitted if and only if the stored bound changed, and only with the new bound. The clamping and the snapping are
  stated for a state that satisfies the invariant of the selection interval, the
  notification of the bound for every state.
\<close>

theorem C3_bound_setters:
  "(case setLowerValue v s of (s', es) \<Rightarrow>
      (Emit (lowerValueChanged (f_lower s')) \<in> set es \<longleftrightarrow> f_lower s' \<noteq> f_lower s) \<and>
      (\<forall>x. Emit (lowerValueChanged x) \<in> set es \<longrightarrow> x = f_lower s') \<and>
      (slider_invariant s \<longrightarrow>
         f_lower s' = clamp_into (f_min s) (f_upper s) v \<and>
         (f_value s < f_lower s' \<longrightarrow>
            f_value s' = f_lower s' \<and> Emit (valueChanged (f_lower s')) \<in> set es) \<and>
         (\<not> f_value s < f_lower s' \<longrightarrow>
            f_value s' = f_value s \<and> (\<forall>x. Emit (valueChanged x) \<notin> set es)))) \<and>
   (case setUpperValue w s of (s', es) \<Rightarrow>
      (Emit (upperValueChanged (f_upper s')) \<in> set es \<longleftrightarrow> f_upper s' \<noteq> f_upper s) \<and>
      (\<forall>x. Emit (upperValueChanged x) \<in> set es \<longrightarrow> x = f_upper s') \<and>
      (slider_invariant s \<longrightarrow>
         f_upper s' = clamp_into (f_lower s) (f_max s) w \<and>
         (f_upper s' < f_value s \<longrightarrow>
            f_value s' = f_upper s' \<and> Emit (valueChanged (f_upper s')) \<in> set es) \<and>
         (\<not> f_upper s' < f_value s \<longrightarrow>
            f_value s' = f_value s \<and> (\<forall>x. Emit (valueChanged x) \<notin> set es))))"
  using setLowerValue_effect [where v = v and s = s]
    setUpperValue_effect [where v = w and s = s] by simp

text \<open>
  The witness: with the playhead at 50 in \<open>[0, 120]\<close>, \<open>setLowerValue(60)\<close> moves
  the lower bound above the playhead and \<open>setUpperValue(40)\<close> moves the upper bound
  below it.
\<close>

theorem C3_bound_setters_witness:
  "slider_invariant playing \<and> f_value playing = 50 \<and>
   f_lower (fst (setLowerValue 60 playing)) = 60 \<and>
   f_value (fst (setLowerValue 60 playing)) = 60 \<and>
   Emit (valueChanged 60) \<in> set (snd (setLowerValue 60 playing)) \<and>
   Emit (lowerValueChanged 60) \<in> set (snd (setLowerValue 60 playing)) \<and>
   f_upper (fst (setUpperValue 40 playing)) = 40 \<and>
   f_value (fst (setUpperValue 40 playing)) = 40 \<and>
   Emit (valueChanged 40) \<in> set (snd (setUpperValue 40 playing)) \<and>
   Emit (upperValueChanged 40) \<in> set (snd (setUpperValue 40 playing))"
proof -
  have inv: "slider_invariant playing"
    by (simp add: playing_def slider_invariant_def setValue_def setRange_def init_def)
  have st: "f_min playing = 0" "f_max playing = 120" "f_lower playing = 0"
    "f_upper playing = 120" "f_value playing = 50"
    by (simp_all add: playing_def setValue_def setRange_def init_def)
  show ?thesis
    using C3_bound_setters [where v = 60 and w = 40 and s = playing] inv st
    by (auto simp: clamp_into_def split: prod.splits)
qed

text \<open>
  C4: \<open>setValue(v)\<close> stores \<open>max lower (min v upper)\<close>, which is \<open>v\<close> clamped
  into \<open>[lower, upper]\<close> when \<open>lower \<le> upper\<close>; it emits \<open>valueChanged\<close> with the
  new position, followed by a repaint request, exactly when the stored position changes,
  and nothing otherwise; and from any state, \<open>setRange(0, 120); setLowerValue(30);
  setUpperValue(90); setValue(10)\<close> ends with \<open>value = 30\<close>.
\<close>

theorem C4_setValue:
  "(f_lower s \<le> f_upper s \<longrightarrow>
      f_value (fst (setValue v s)) = clamp_into (f_lower s) (f_upper s) v \<and>
      f_lower s \<le> f_value (fst (setValue v s)) \<and>
      f_value (fst (setValue v s)) \<le> f_upper s) \<and>
   snd (setValue v s) =
     (if f_value (fst (setValue v s)) \<noteq> f_value s
      then [Emit (valueChanged (f_value (fst (setValue v s)))), Update] else []) \<and>
   f_value (fst (setValue 10 (fst (setUpperValue 90 (fst (setLowerValue 30
      (fst (setRange 0 120 s0)))))))) = 30"
proof -
  have clamp: "f_lower s \<le> f_upper s \<longrightarrow>
      f_value (fst (setValue v s)) = clamp_into (f_lower s) (f_upper s) v \<and>
      f_lower s \<le> f_value (fst (setValue v s)) \<and>
      f_value (fst (setValue v s)) \<le> f_upper s"
    by (auto simp: setValue_def clamp_into_def Let_def)
  have emits: "snd (setValue v s) =
     (if f_value (fst (setValue v s)) \<noteq> f_value s
      then [Emit (valueChanged (f_value (fst (setValue v s)))), Update] else [])"
    by (simp add: setValue_def Let_def)
  let ?s1 = "fst (setRange 0 120 s0)"
  let ?s2 = "fst (setLowerValue 30 ?s1)"
  let ?s3 = "fst (setUpperValue 90 ?s2)"
  have s1: "f_min ?s1 = 0" "f_max ?s1 = 120" "f_lower ?s1 = 0" "f_upper ?s1 = 120"
    by (simp_all add: setRange_def)
  have s2: "f_lower ?s2 = 30" "f_upper ?s2 = 120" "f_max ?s2 = 120"
    by (simp_all add: setLowerValue_def s1)
  have s3: "f_lower ?s3 = 30" "f_upper ?s3 = 90"
    by (simp_all add: setUpperValue_def s2)
  have scenario: "f_value (fst (setValue 10 ?s3)) = 30"
    by (simp add: setValue_def s3)
  from clamp emits scenario show ?thesis by blast
qed

theorem C4_setValue_witness:
  "f_lower playing \<le> f_upper playing \<and>
   f_value (fst (setValue 200 playing)) = 120 \<and>
   snd (setValue 200 playing) = [Emit (valueChanged 120), Update] \<and>
   snd (setValue 50 playing) = []"
proof -
  have st: "f_lower playing = 0" "f_upper playing = 120" "f_value playing = 50"
    by (simp_all add: playing_def setValue_def setRange_def init_def)
  show ?thesis
    using C4_setValue [where s = playing and v = 200 and ?s0.0 = "init 0 99"]
      C4_setValue [where s = playing and v = 50 and ?s0.0 = "init 0 99"] st
    by (simp add: clamp_into_def)
qed

section \<open>Theorems about the utility functions\<close>

lemma set_INVALID: "set INVALID = invalid_chars"
  by (auto simp: INVALID_def invalid_chars_def)

lemma sanitize_dash_map:
  "sanitize t dash = map (\<lambda>c. if c \<in> invalid_chars then 0x2D else c) t"
  by (induction t) (simp_all add: sanitize_def dash_def set_INVALID)

text \<open>
  C10: for every string \<open>t\<close>, \<open>sanitize(t)\<close> with the default replacement has
  the length of \<open>t\<close>; at each index it holds \<open>-\<close> where \<open>t\<close> holds one of
  \<open>< > : " / \ | ? *\<close> and the character of \<open>t\<close> otherwise; and no character
  of that set occurs in it.
\<close>

theorem C10_sanitize:
  "length (sanitize t dash) = length t \<and>
   (\<forall>i < length t.
      sanitize t dash ! i = (if t ! i \<in> invalid_chars then 0x2D else t ! i)) \<and>
   set (sanitize t dash) \<inter> invalid_chars = {}"
proof -
  have "0x2D \<notin> invalid_chars"
    by (simp add: invalid_chars_def)
  then have "set (sanitize t dash) \<inter> invalid_chars = {}"
    by (auto simp: sanitize_dash_map)
  then show ?thesis
    by (simp add: sanitize_dash_map)
qed

text \<open>The witness: \<open>sanitize("a/b:c") = "a-b-c"\<close>, index 1 being the slash.\<close>

theorem C10_sanitize_witness:
  "(1::nat) < length (lit ''a/b:c'') \<and> lit ''a/b:c'' ! 1 \<in> invalid_chars \<and>
   sanitize (lit ''a/b:c'') dash ! 1 = 0x2D \<and>
   length (sanitize (lit ''a/b:c'') dash) = 5"
proof -
  have l: "lit ''a/b:c'' = [97, 47, 98, 58, 99]"
    by (simp add: lit_def)
  have "(1::nat) < length (lit ''a/b:c'')" and "lit ''a/b:c'' ! 1 \<in> invalid_chars"
    by (simp_all add: l invalid_chars_def)
  with C10_sanitize [of "lit ''a/b:c''"] show ?thesis
    by (simp add: l)
qed

text \<open>
  C8 (the code departs from it): for 5 seconds \<open>hhmmss\<close> returns \<open>0:00:05\<close>,
  seven characters with a one-digit hour, which is not of the form of two digits, a
  colon, two digits, a colon and two digits.
\<close>

theorem C8_hhmmss_one_digit_hour:
  "hhmmss (PyInt 5) = Inr (lit ''0:00:05'') \<and> \<not> hh_mm_ss_form (lit ''0:00:05'')"
  by (simp add: hhmmss_def py_int_def timedelta_seconds_def timedelta_str_def str_int_def
      fmt_02d_def lit_def)

section \<open>Theorems about the trim action\<close>

lemma trim_action_rejected:
  assumes "video_path s = Some vp" and "f_upper (slider s) \<le> f_lower (slider s)"
  shows "trim_action dst outcome s =
           (s, [MessageBox_warning (lit ''Bad range'') (lit ''End must be after Start.'')])"
  using assms by (simp add: trim_action_def trim_save_def)

lemma trim_action_subprocess:
  assumes "x \<in> set (snd (trim_action dst outcome s))" and "is_SubprocessRun x"
  shows "f_lower (slider s) < f_upper (slider s)"
proof (rule ccontr)
  assume "\<not> f_lower (slider s) < f_upper (slider s)"
  then have le: "f_upper (slider s) \<le> f_lower (slider s)" by simp
  show False
  proof (cases "video_path s")
    case None
    then have "snd (trim_action dst outcome s) = []"
      by (simp add: trim_action_def trim_save_def)
    with assms show False by simp
  next
    case (Some vp)
    from trim_action_rejected [OF Some le] assms show False
      by (simp add: is_SubprocessRun_def)
  qed
qed

text \<open>
  C6: when a video is loaded and the trim is requested with \<open>end \<le> start\<close>, the whole
  action consists of the warning box \<open>Bad range\<close>: no file dialog, no thread, no
  subprocess, and the state is left as it was. In every state, whatever the dialog and
  the subprocess answer, a subprocess is run only when \<open>end > start\<close>.
\<close>

theorem C6_trim_rejected:
  "(video_path s \<noteq> None \<and> f_upper (slider s) \<le> f_lower (slider s) \<longrightarrow>
      fst (trim_action dst outcome s) = s \<and>
      snd (trim_action dst outcome s) =
        [MessageBox_warning (lit ''Bad range'') (lit ''End must be after Start.'')] \<and>
      \<not> (\<exists>x \<in> set (snd (trim_action dst outcome s)).
            is_SubprocessRun x \<or> is_GetSaveFileName x)) \<and>
   ((\<exists>x \<in> set (snd (trim_action dst outcome s)). is_SubprocessRun x) \<longrightarrow>
      f_lower (slider s) < f_upper (slider s))"
proof -
  have "f_lower (slider s) < f_upper (slider s)"
    if "\<exists>x \<in> set (snd (trim_action dst outcome s)). is_SubprocessRun x"
    using that trim_action_subprocess by blast
  moreover have "fst (trim_action dst outcome s) = s \<and>
      snd (trim_action dst outcome s) =
        [MessageBox_warning (lit ''Bad range'') (lit ''End must be after Start.'')] \<and>
      \<not> (\<exists>x \<in> set (snd (trim_action dst outcome s)).
            is_SubprocessRun x \<or> is_GetSaveFileName x)"
    if "video_path s \<noteq> None" and "f_upper (slider s) \<le> f_lower (slider s)"
  proof -
    from that obtain vp where "video_path s = Some vp" by auto
    from trim_action_rejected [OF this that(2)] show ?thesis
      by (simp add: is_SubprocessRun_def is_GetSaveFileName_def)
  qed
  ultimately show ?thesis by blast
qed

text \<open>
  The witnesses: the rejected request with \<open>start = 50\<close>, \<open>end = 20\<close>; and, with the
  selection widened to \<open>[0, 99]\<close> and a destination chosen, a request that does run
  the subprocess.
\<close>

theorem C6_trim_rejected_witness:
  "video_path loaded_50_20 \<noteq> None \<and>
   f_lower (slider loaded_50_20) = 50 \<and> f_upper (slider loaded_50_20) = 20 \<and>
   trim_action (lit ''out.mp4'') Exit0 loaded_50_20 =
     (loaded_50_20, [MessageBox_warning (lit ''Bad range'') (lit ''End must be after Start.'')]) \<and>
   (\<exists>x \<in> set (snd (trim_action (lit ''out.mp4'') Exit0 (loaded_50_20\<lparr>slider := init 0 99\<rparr>))).
      is_SubprocessRun x) \<and>
   f_lower (slider (loaded_50_20\<lparr>slider := init 0 99\<rparr>))
     < f_upper (slider (loaded_50_20\<lparr>slider := init 0 99\<rparr>))"
proof -
  have st: "video_path loaded_50_20 \<noteq> None" "f_lower (slider loaded_50_20) = 50"
    "f_upper (slider loaded_50_20) = 20"
    by (simp_all add: loaded_50_20_def)
  have run: "\<exists>x \<in> set (snd (trim_action (lit ''out.mp4'') Exit0 (loaded_50_20\<lparr>slider := init 0 99\<rparr>))).
      is_SubprocessRun x"
    by (simp add: trim_action_def trim_save_def loaded_50_20_def init_def work_def
        is_SubprocessRun_def lit_def)
  from C6_trim_rejected [where s = loaded_50_20 and dst = "lit ''out.mp4''" and outcome = Exit0]
    st
  have rejected: "trim_action (lit ''out.mp4'') Exit0 loaded_50_20 =
     (loaded_50_20, [MessageBox_warning (lit ''Bad range'') (lit ''End must be after Start.'')])"
    by (simp add: prod_eq_iff)
  from C6_trim_rejected [where s = "loaded_50_20\<lparr>slider := init 0 99\<rparr>"
      and dst = "lit ''out.mp4''" and outcome = Exit0] run
  have "f_lower (slider (loaded_50_20\<lparr>slider := init 0 99\<rparr>))
     < f_upper (slider (loaded_50_20\<lparr>slider := init 0 99\<rparr>))"
    by blast
  with st rejected run show ?thesis by blast
qed

section \<open>Theorems about the download worker\<close>

lemma phook_no_Error_Finished:
  "phook d = Inr sigs \<Longrightarrow> x \<in> set sigs \<Longrightarrow> \<not> is_Error x \<and> \<not> is_Finished x"
  by (auto simp: phook_def and_then_def is_Error_def is_Finished_def Let_def
      split: if_splits sum.splits)

lemma run_hooks_no_Error_Finished:
  "run_hooks ds = (sigs, err) \<Longrightarrow> x \<in> set sigs \<Longrightarrow> \<not> is_Error x \<and> \<not> is_Finished x"
proof (induction ds arbitrary: sigs err)
  case Nil
  then show ?case by simp
next
  case (Cons d ds)
  show ?case
  proof (cases "phook d")
    case (Inl e)
    with Cons.prems show ?thesis by simp
  next
    case (Inr s1)
    obtain rest err' where r: "run_hooks ds = (rest, err')"
      by (cases "run_hooks ds")
    with Inr Cons.prems have "sigs = s1 @ rest" by simp
    with Cons.prems(2) have "x \<in> set s1 \<or> x \<in> set rest" by simp
    then show ?thesis
      using phook_no_Error_Finished [OF Inr] Cons.IH [OF r] by blast
  qed
qed

lemma filter_hooks:
  assumes "run_hooks ds = (sigs, err)"
  shows "filter is_Error sigs = []" and "filter is_Finished sigs = []"
  using run_hooks_no_Error_Finished [OF assms] by (simp_all add: filter_empty_conv)

text \<open>
  C9 (as stated, refuted): with no duration in the metadata, a download that goes through
  and leaves its file ends with \<open>progress(100)\<close> and \<open>finished(path, 0)\<close>, and with
  no error.
\<close>

theorem C9_no_duration_counterexample:
  "extract_info no_duration_env = Inr \<lparr>info_duration = None, info_title = Some (lit ''a'')\<rparr> \<and>
   run no_duration_env (lit ''/tmp/x'') = [Progress 100, Finished (lit ''/tmp/x/a.mp4'') 0]"
  by (simp add: no_duration_env_def run_def mp4_path_def sanitize_def dash_def INVALID_def
      lit_def)

text \<open>
  C9 (amended): when the metadata query yields no duration, the worker takes 0 as the
  duration and goes on. If then no exception ends the download and the output file
  exists, it emits \<open>finished\<close> once, with the path of the file and the duration 0, and no
  error; otherwise it emits a single error and no \<open>finished\<close>.
\<close>

theorem C9_no_duration:
  assumes "extract_info env = Inr i" and "info_duration i = None"
  shows "(if snd (run_hooks (hook_calls env)) = None \<and> download_raises env = None \<and>
             file_exists env (resolve env (mp4_path tmp i))
          then filter is_Finished (run env tmp) = [Finished (resolve env (mp4_path tmp i)) 0] \<and>
               filter is_Error (run env tmp) = []
          else length (filter is_Error (run env tmp)) = 1 \<and>
               filter is_Finished (run env tmp) = [])"
proof -
  obtain sigs err where h: "run_hooks (hook_calls env) = (sigs, err)"
    by (cases "run_hooks (hook_calls env)")
  note f = filter_hooks [OF h]
  show ?thesis
    using assms h f
    by (auto simp: run_def is_Error_def is_Finished_def Let_def split: option.splits)
qed

theorem C9_no_duration_witness:
  "extract_info no_duration_env = Inr \<lparr>info_duration = None, info_title = Some (lit ''a'')\<rparr> \<and>
   filter is_Finished (run no_duration_env (lit ''/tmp/x''))
     = [Finished (lit ''/tmp/x/a.mp4'') 0] \<and>
   filter is_Error (run no_duration_env (lit ''/tmp/x'')) = []"
proof -
  have e: "extract_info no_duration_env = Inr \<lparr>info_duration = None, info_title = Some (lit ''a'')\<rparr>"
    by (simp add: no_duration_env_def)
  have p: "mp4_path (lit ''/tmp/x'') \<lparr>info_duration = None, info_title = Some (lit ''a'')\<rparr>
      = lit ''/tmp/x/a.mp4''"
    by (simp add: mp4_path_def sanitize_def dash_def INVALID_def lit_def)
  have r: "resolve no_duration_env = (\<lambda>p. p)" "file_exists no_duration_env = (\<lambda>p. True)"
    "hook_calls no_duration_env = []" "download_raises no_duration_env = None"
    by (simp_all add: no_duration_env_def)
  from C9_no_duration [OF e, where tmp = "lit ''/tmp/x''"] e show ?thesis
    by (simp add: p r)
qed

end
